theory Spec2Isabelle
  imports Main "HOL-Library.Char_ord" "HOL-Library.List_Lexorder"
begin

section \<open>Errors of the signed client (seaweedfs/client.go)\<close>

text \<open>
  \<^verbatim>\<open>type iamError struct { Code string; Message string }\<close>
  Go strings are byte sequences, as \<^typ>\<open>string\<close> is.
\<close>

record iamError =
  Code :: string
  Message :: string

text \<open>
  A value of Go's interface \<^verbatim>\<open>error\<close>, as far as this package meets them: an
  \<^verbatim>\<open>iamError\<close> value, an opaque error that carries only a text (\<^verbatim>\<open>errors.New\<close>, the
  errors of the transport and of the decoders, \<^verbatim>\<open>ctx.Err()\<close>), a \<^verbatim>\<open>url.EscapeError\<close>, or
  \<^verbatim>\<open>fmt.Errorf("...: %w", err)\<close>, which wraps one error in another. A nil \<^verbatim>\<open>error\<close> is
  \<^term>\<open>None\<close> of \<open>go_error option\<close>.
\<close>

datatype go_error =
    IamErr iamError
  | ErrorString string
  | EscapeError string
  | WrapError string go_error

text \<open>
  \<^verbatim>\<open>var apiErr iamError; errors.As(err, &apiErr)\<close>: the first error of the
  \<^verbatim>\<open>Unwrap\<close> chain whose dynamic type is \<^verbatim>\<open>iamError\<close>.
\<close>

fun errors_As :: "go_error \<Rightarrow> iamError option" where
  "errors_As (IamErr e) = Some e"
| "errors_As (ErrorString s) = None"
| "errors_As (EscapeError s) = None"
| "errors_As (WrapError s err) = errors_As err"

definition isNoSuchEntityError :: "go_error \<Rightarrow> bool" where
  "isNoSuchEntityError err =
     (case errors_As err of
        Some apiErr \<Rightarrow> Code apiErr = ''NoSuchEntity''
      | None \<Rightarrow> False)"

definition isEntityAlreadyExistsError :: "go_error \<Rightarrow> bool" where
  "isEntityAlreadyExistsError err =
     (case errors_As err of
        Some apiErr \<Rightarrow> Code apiErr = ''EntityAlreadyExists''
      | None \<Rightarrow> False)"

definition isServiceFailureError :: "go_error \<Rightarrow> bool" where
  "isServiceFailureError err =
     (case errors_As err of
        Some apiErr \<Rightarrow>
          Code apiErr = ''ServiceFailure'' \<or> Code apiErr = ''HTTP500'' \<or> Code apiErr = ''HTTP503''
      | None \<Rightarrow> False)"

definition isRetryableIAMError :: "go_error \<Rightarrow> bool" where
  "isRetryableIAMError err = (isNoSuchEntityError err \<or> isServiceFailureError err)"

definition isNoSuchBucketError :: "go_error \<Rightarrow> bool" where
  "isNoSuchBucketError err =
     (case errors_As err of
        Some apiErr \<Rightarrow>
          Code apiErr = ''NoSuchBucket'' \<or> Code apiErr = ''NotFound'' \<or>
          Code apiErr = ''NoSuchKey'' \<or> Code apiErr = ''NoSuchEntity''
      | None \<Rightarrow> False)"

definition isBucketAlreadyExistsError :: "go_error \<Rightarrow> bool" where
  "isBucketAlreadyExistsError err =
     (case errors_As err of
        Some apiErr \<Rightarrow>
          Code apiErr = ''BucketAlreadyOwnedByYou'' \<or> Code apiErr = ''BucketAlreadyExists''
      | None \<Rightarrow> False)"

section \<open>The retry engine\<close>

text \<open>
  \<^verbatim>\<open>func retryIAMEventuallyConsistent(ctx context.Context, attempts int, fn func() error) error\<close>

  The closure \<open>fn\<close> is a state transformer on the state \<open>'s\<close> it captures; it returns
  \<^term>\<open>None\<close> for nil. The context is what the loop can see of it: \<open>ctx_Done i\<close> tells
  whether the \<^verbatim>\<open>select\<close> of the wait that follows attempt \<open>i\<close> takes the branch
  \<^verbatim>\<open>case <-ctx.Done()\<close> (Go chooses among the ready branches), and \<open>ctx_Err\<close> is what
  \<^verbatim>\<open>ctx.Err()\<close> gives then. A \<^verbatim>\<open>time.Duration\<close> counts nanoseconds. The counter
  \<open>i\<close> stays below \<open>attempts\<close> and the delay at most two seconds, so the 64-bit
  arithmetic of Go never wraps here and the integers are those of HOL. At the
  \<^verbatim>\<open>break\<close> of the last attempt \<^verbatim>\<open>lastErr\<close> is the error just seen, which the function
  returns after the loop.
\<close>

record go_context =
  ctx_Done :: "int \<Rightarrow> bool"
  ctx_Err :: "go_error option"

definition Millisecond :: int where
  "Millisecond = 1000000"

definition Second :: int where
  "Second = 1000000000"

text \<open>
  What a run of the engine is observed to do: the error returned, the state of the
  closure afterwards, the number of times \<open>fn\<close> was invoked, and the durations of the
  timers that were started, in order.
\<close>

record 's retry_run =
  returned :: "go_error option"
  fn_state :: 's
  invocations :: nat
  timers :: "int list"

function retry_loop ::
  "go_context \<Rightarrow> int \<Rightarrow> ('s \<Rightarrow> go_error option \<times> 's) \<Rightarrow>
   int \<Rightarrow> int \<Rightarrow> go_error option \<Rightarrow> 's \<Rightarrow> nat \<Rightarrow> int list \<Rightarrow> 's retry_run" where
  "retry_loop ctx attempts fn i delay lastErr s calls ts =
     (if i < attempts then
        (case fn s of
           (None, s') \<Rightarrow>
             \<lparr>returned = None, fn_state = s', invocations = Suc calls, timers = ts\<rparr>
         | (Some err, s') \<Rightarrow>
             if \<not> isRetryableIAMError err then
               \<lparr>returned = Some err, fn_state = s', invocations = Suc calls, timers = ts\<rparr>
             else if i = attempts - 1 then
               \<lparr>returned = Some err, fn_state = s', invocations = Suc calls, timers = ts\<rparr>
             else if ctx_Done ctx i then
               \<lparr>returned = ctx_Err ctx, fn_state = s', invocations = Suc calls,
                 timers = ts @ [delay]\<rparr>
             else
               retry_loop ctx attempts fn (i + 1)
                 (if delay * 2 > 2 * Second then 2 * Second else delay * 2)
                 (Some err) s' (Suc calls) (ts @ [delay]))
      else
        \<lparr>returned = lastErr, fn_state = s, invocations = calls, timers = ts\<rparr>)"
  by pat_completeness auto
termination
  by (relation "measure (\<lambda>(ctx, attempts, fn, i, delay, lastErr, s, calls, ts). nat (attempts - i))")
     auto

declare retry_loop.simps [simp del]

definition retryIAMEventuallyConsistent ::
  "go_context \<Rightarrow> int \<Rightarrow> ('s \<Rightarrow> go_error option \<times> 's) \<Rightarrow> 's \<Rightarrow> 's retry_run" where
  "retryIAMEventuallyConsistent ctx attempts fn s =
     retry_loop ctx (if attempts < 1 then 1 else attempts) fn 0 (200 * Millisecond) None s 0 []"

text \<open>
  The closure run repeatedly from the state \<open>s\<close>: its state after \<open>j\<close> invocations, and
  what its invocation number \<open>j\<close> (counted from 0) returns.
\<close>

fun fn_after :: "('s \<Rightarrow> go_error option \<times> 's) \<Rightarrow> nat \<Rightarrow> 's \<Rightarrow> 's" where
  "fn_after fn 0 s = s"
| "fn_after fn (Suc j) s = fn_after fn j (snd (fn s))"

definition fn_result :: "('s \<Rightarrow> go_error option \<times> 's) \<Rightarrow> 's \<Rightarrow> nat \<Rightarrow> go_error option" where
  "fn_result fn s j = fst (fn (fn_after fn j s))"

definition fails_retryably :: "('s \<Rightarrow> go_error option \<times> 's) \<Rightarrow> 's \<Rightarrow> nat \<Rightarrow> bool" where
  "fails_retryably fn s j =
     (case fn_result fn s j of None \<Rightarrow> False | Some e \<Rightarrow> isRetryableIAMError e)"

text \<open>
  The inputs of the tests in seaweedfs/client\_test.go:
  \<^verbatim>\<open>context.Background()\<close>, which is never done; the closure of
  \<^verbatim>\<open>TestRetryIAMEventuallyConsistent\<close>, which counts its invocations and fails with
  \<^verbatim>\<open>ServiceFailure\<close> while the count is below 3; the closure of
  \<^verbatim>\<open>TestRetryIAMEventuallyConsistentStopsOnNonRetryableError\<close>, which always returns
  \<^verbatim>\<open>errors.New("boom")\<close>. Beside them, a closure that fails with \<^verbatim>\<open>ServiceFailure\<close>
  on every invocation, and a context that has been cancelled.
\<close>

definition context_Background :: go_context where
  "context_Background = \<lparr>ctx_Done = (\<lambda>i. False), ctx_Err = None\<rparr>"

definition context_Cancelled :: go_context where
  "context_Cancelled =
     \<lparr>ctx_Done = (\<lambda>i. True), ctx_Err = Some (ErrorString ''context canceled'')\<rparr>"

definition test_fn_temporary :: "int \<Rightarrow> go_error option \<times> int" where
  "test_fn_temporary attempts =
     (if attempts + 1 < 3
      then (Some (IamErr \<lparr>Code = ''ServiceFailure'', Message = ''temporary''\<rparr>), attempts + 1)
      else (None, attempts + 1))"

definition test_fn_boom :: "int \<Rightarrow> go_error option \<times> int" where
  "test_fn_boom attempts = (Some (ErrorString ''boom''), attempts + 1)"

definition fn_always_ServiceFailure :: "int \<Rightarrow> go_error option \<times> int" where
  "fn_always_ServiceFailure attempts =
     (Some (IamErr \<lparr>Code = ''ServiceFailure'', Message = ''temporary''\<rparr>), attempts + 1)"

section \<open>Functions of the Go standard library the package calls\<close>

text \<open>
  \<^verbatim>\<open>strings.TrimSpace(s)\<close> removes the leading and the trailing white space of \<open>s\<close>, as
  Unicode defines it (\<^verbatim>\<open>unicode.IsSpace\<close>). A Go string is a sequence of bytes read as
  UTF-8, so the white space runes are listed by their encodings: the six ASCII ones,
  U+0085, U+00A0, U+1680, U+2000 to U+200A, U+2028, U+2029, U+202F, U+205F and U+3000.
  A byte that starts no valid encoding is the rune U+FFFD, which is no space, and stops
  the trimming.
\<close>

definition white_space :: "string list" where
  "white_space =
     [[CHR 0x09], [CHR 0x0A], [CHR 0x0B], [CHR 0x0C], [CHR 0x0D], [CHR 0x20],
      [CHR 0xC2, CHR 0x85], [CHR 0xC2, CHR 0xA0],
      [CHR 0xE1, CHR 0x9A, CHR 0x80],
      [CHR 0xE2, CHR 0x80, CHR 0x80], [CHR 0xE2, CHR 0x80, CHR 0x81],
      [CHR 0xE2, CHR 0x80, CHR 0x82], [CHR 0xE2, CHR 0x80, CHR 0x83],
      [CHR 0xE2, CHR 0x80, CHR 0x84], [CHR 0xE2, CHR 0x80, CHR 0x85],
      [CHR 0xE2, CHR 0x80, CHR 0x86], [CHR 0xE2, CHR 0x80, CHR 0x87],
      [CHR 0xE2, CHR 0x80, CHR 0x88], [CHR 0xE2, CHR 0x80, CHR 0x89],
      [CHR 0xE2, CHR 0x80, CHR 0x8A],
      [CHR 0xE2, CHR 0x80, CHR 0xA8], [CHR 0xE2, CHR 0x80, CHR 0xA9],
      [CHR 0xE2, CHR 0x80, CHR 0xAF],
      [CHR 0xE2, CHR 0x81, CHR 0x9F],
      [CHR 0xE3, CHR 0x80, CHR 0x80]]"

text \<open>The number of bytes of the white space rune \<open>s\<close> starts with; 0 when it starts with none.\<close>

definition leading_space :: "string list \<Rightarrow> string \<Rightarrow> nat" where
  "leading_space ws s =
     (case find (\<lambda>w. take (length w) s = w) ws of None \<Rightarrow> 0 | Some w \<Rightarrow> length w)"

function trim_leading :: "string list \<Rightarrow> string \<Rightarrow> string" where
  "trim_leading ws s =
     (if leading_space ws s = 0 then s else trim_leading ws (drop (leading_space ws s) s))"
  by pat_completeness auto
termination
proof (relation "measure (\<lambda>(ws, s). length s)")
  show "wf (measure (\<lambda>(ws, s). length s))" by simp
next
  fix ws :: "string list" and s :: string
  assume nz: "leading_space ws s \<noteq> 0"
  then obtain w where w: "find (\<lambda>w. take (length w) s = w) ws = Some w" and l: "length w \<noteq> 0"
    by (auto simp: leading_space_def split: option.splits)
  from w have "take (length w) s = w" by (auto simp: find_Some_iff)
  with l have "s \<noteq> []" by auto
  with nz show "((ws, drop (leading_space ws s) s), (ws, s)) \<in> measure (\<lambda>(ws, s). length s)"
    by simp
qed

declare trim_leading.simps [simp del]

definition strings_TrimSpace :: "string \<Rightarrow> string" where
  "strings_TrimSpace s =
     rev (trim_leading (map rev white_space) (rev (trim_leading white_space s)))"

text \<open>\<^verbatim>\<open>strings.TrimRight(s, "/")\<close>: \<open>s\<close> without its trailing slashes.\<close>

definition strings_TrimRight_slash :: "string \<Rightarrow> string" where
  "strings_TrimRight_slash s = rev (dropWhile (\<lambda>c. c = CHR ''/'') (rev s))"

text \<open>\<^verbatim>\<open>fmt.Sprintf("%d", n)\<close>: the decimal digits of \<open>n\<close>, after a minus sign when \<open>n < 0\<close>.\<close>

fun decimal :: "nat \<Rightarrow> string" where
  "decimal n =
     (if n < 10 then [''0123456789'' ! n]
      else decimal (n div 10) @ [''0123456789'' ! (n mod 10)])"

declare decimal.simps [simp del]

definition Sprintf_d :: "int \<Rightarrow> string" where
  "Sprintf_d n = (if n < 0 then CHR ''-'' # decimal (nat (- n)) else decimal (nat n))"

text \<open>
  \<^verbatim>\<open>url.QueryUnescape(s)\<close>: a first pass refuses a \<^verbatim>\<open>%\<close> that is not followed by two
  hexadecimal digits, with the \<^verbatim>\<open>url.EscapeError\<close> of the (at most three) bytes from the
  \<^verbatim>\<open>%\<close> on; a second pass turns \<^verbatim>\<open>%XY\<close> into the byte \<open>16 * X + Y\<close> and \<^verbatim>\<open>+\<close> into a
  space.
\<close>

definition byte_between :: "char \<Rightarrow> char \<Rightarrow> char \<Rightarrow> bool" where
  "byte_between lo c hi = ((of_char lo :: nat) \<le> of_char c \<and> (of_char c :: nat) \<le> of_char hi)"

definition ishex :: "char \<Rightarrow> bool" where
  "ishex c =
     (byte_between CHR ''0'' c CHR ''9'' \<or> byte_between CHR ''a'' c CHR ''f'' \<or>
      byte_between CHR ''A'' c CHR ''F'')"

definition unhex :: "char \<Rightarrow> nat" where
  "unhex c =
     (if byte_between CHR ''0'' c CHR ''9'' then of_char c - of_char CHR ''0''
      else if byte_between CHR ''a'' c CHR ''f'' then of_char c - of_char CHR ''a'' + 10
      else if byte_between CHR ''A'' c CHR ''F'' then of_char c - of_char CHR ''A'' + 10
      else 0)"

fun bad_escape :: "string \<Rightarrow> string option" where
  "bad_escape [] = None"
| "bad_escape (c # cs) =
     (if c = CHR ''%'' then
        (case cs of
           h1 # h2 # rest \<Rightarrow>
             if ishex h1 \<and> ishex h2 then bad_escape rest else Some (take 3 (c # cs))
         | _ \<Rightarrow> Some (take 3 (c # cs)))
      else bad_escape cs)"

fun unescape_bytes :: "string \<Rightarrow> string" where
  "unescape_bytes [] = []"
| "unescape_bytes (c # cs) =
     (if c = CHR ''%'' then
        (case cs of
           h1 # h2 # rest \<Rightarrow> char_of (unhex h1 * 16 + unhex h2) # unescape_bytes rest
         | _ \<Rightarrow> [])
      else if c = CHR ''+'' then CHR '' '' # unescape_bytes cs
      else c # unescape_bytes cs)"

definition url_QueryUnescape :: "string \<Rightarrow> go_error + string" where
  "url_QueryUnescape s =
     (case bad_escape s of
        Some esc \<Rightarrow> Inl (EscapeError esc)
      | None \<Rightarrow> Inr (unescape_bytes s))"

section \<open>Constructing the client\<close>

text \<open>
  \<^verbatim>\<open>type iamClientConfig struct { Endpoint, Region, AccessKey, SecretKey string; Insecure bool }\<close>
  and the client built from it. Of the collaborators the client holds, the records keep
  what \<^verbatim>\<open>newIAMClient\<close> sets: the static credentials, the signer's option, the transport's
  TLS setting with the timeout of the HTTP client, and the options of the S3 client.
\<close>

record iamClientConfig =
  Endpoint :: string
  Region :: string
  AccessKey :: string
  SecretKey :: string
  Insecure :: bool

record StaticCredentialsProvider =
  AccessKeyID :: string
  SecretAccessKey :: string
  SessionToken :: string

record v4_Signer =
  DisableURIPathEscaping :: bool

record http_Client =
  InsecureSkipVerify :: bool
  Timeout :: int

record s3_Options =
  s3_Region :: string
  s3_Credentials :: StaticCredentialsProvider
  s3_HTTPClient :: http_Client
  s3_BaseEndpoint :: string
  s3_UsePathStyle :: bool

record iamClient =
  endpoint :: string
  region :: string
  creds :: StaticCredentialsProvider
  signer :: v4_Signer
  http :: http_Client
  s3 :: s3_Options

definition newIAMClient :: "iamClientConfig \<Rightarrow> go_error + iamClient" where
  "newIAMClient cfg0 =
     (if Endpoint cfg0 = '''' then Inl (ErrorString ''endpoint is required'')
      else
        let cfg = (if Region cfg0 = '''' then cfg0\<lparr>Region := ''us-east-1''\<rparr> else cfg0) in
        if AccessKey cfg = '''' \<or> SecretKey cfg = '''' then
          Inl (ErrorString ''access_key and secret_key are required'')
        else
          let tr = \<lparr>InsecureSkipVerify = Insecure cfg, Timeout = 30 * Second\<rparr>;
              cr = \<lparr>AccessKeyID = AccessKey cfg, SecretAccessKey = SecretKey cfg,
                     SessionToken = ''''\<rparr>;
              ep = strings_TrimRight_slash (Endpoint cfg)
          in Inr \<lparr>endpoint = ep, region = Region cfg, creds = cr,
                   signer = \<lparr>DisableURIPathEscaping = True\<rparr>, http = tr,
                   s3 = \<lparr>s3_Region = Region cfg, s3_Credentials = cr, s3_HTTPClient = tr,
                          s3_BaseEndpoint = ep, s3_UsePathStyle = True\<rparr>\<rparr>)"

section \<open>Decoding an error response\<close>

text \<open>
  \<^verbatim>\<open>type iamErrorEnvelope struct { Code, Message string; Error iamAPIError }\<close> and
  \<^verbatim>\<open>type iamAPIError struct { Code, Message string }\<close>. Record fields are constants of
  the theory, so the fields of the three Go structs that are called \<^verbatim>\<open>Code\<close> and
  \<^verbatim>\<open>Message\<close> get a prefix here.
\<close>

record iamAPIError =
  api_Code :: string
  api_Message :: string

record iamErrorEnvelope =
  env_Code :: string
  env_Message :: string
  env_Error :: iamAPIError

text \<open>
  \<^verbatim>\<open>func parseAPIError(status int, data []byte) error\<close>. The decoder of encoding/xml is
  no code of this package: \<open>xml_envelope\<close> stands for
  \<^verbatim>\<open>xml.Unmarshal(data, &envelope)\<close> and \<open>xml_direct\<close> for \<^verbatim>\<open>xml.Unmarshal(data, &direct)\<close>,
  each giving the error or the struct it fills.
\<close>

definition parseAPIError ::
  "(string \<Rightarrow> go_error + iamErrorEnvelope) \<Rightarrow> (string \<Rightarrow> go_error + iamAPIError) \<Rightarrow>
   int \<Rightarrow> string \<Rightarrow> go_error" where
  "parseAPIError xml_envelope xml_direct status data =
     (let fallback =
            IamErr \<lparr>Code = ''HTTP'' @ Sprintf_d status, Message = strings_TrimSpace data\<rparr>
      in
      case xml_envelope data of
        Inl xmlErr \<Rightarrow> fallback
      | Inr envelope \<Rightarrow>
          let apiErr1 = \<lparr>Code = api_Code (env_Error envelope),
                         Message = api_Message (env_Error envelope)\<rparr>;
              apiErr2 = (if Code apiErr1 = '''' then apiErr1\<lparr>Code := env_Code envelope\<rparr>
                         else apiErr1);
              apiErr3 = (if Message apiErr2 = '''' then apiErr2\<lparr>Message := env_Message envelope\<rparr>
                         else apiErr2);
              apiErr4 =
                (if Code apiErr3 = '''' \<or> Message apiErr3 = '''' then
                   (case xml_direct data of
                      Inl xmlErr \<Rightarrow> apiErr3
                    | Inr direct \<Rightarrow>
                        let d1 = (if Code apiErr3 = '''' then apiErr3\<lparr>Code := api_Code direct\<rparr>
                                  else apiErr3)
                        in (if Message d1 = '''' then d1\<lparr>Message := api_Message direct\<rparr>
                            else d1))
                 else apiErr3)
          in
          if Code apiErr4 \<noteq> '''' \<or> Message apiErr4 \<noteq> '''' then
            let r1 = (if Code apiErr4 = '''' then apiErr4\<lparr>Code := ''HTTP'' @ Sprintf_d status\<rparr>
                      else apiErr4)
            in IamErr (if Message r1 = '''' then r1\<lparr>Message := strings_TrimSpace data\<rparr> else r1)
          else fallback)"

text \<open>
  The bodies from which neither a code nor a message can be decoded: the envelope does
  not decode, or it decodes with an empty nested \<^verbatim>\<open>Error\<close> and empty top-level fields
  while the bare element does not decode or decodes with both fields empty.
\<close>

definition nothing_decoded ::
  "(string \<Rightarrow> go_error + iamErrorEnvelope) \<Rightarrow> (string \<Rightarrow> go_error + iamAPIError) \<Rightarrow>
   string \<Rightarrow> bool" where
  "nothing_decoded xml_envelope xml_direct data =
     (case xml_envelope data of
        Inl xmlErr \<Rightarrow> True
      | Inr envelope \<Rightarrow>
          api_Code (env_Error envelope) = '''' \<and> api_Message (env_Error envelope) = '''' \<and>
          env_Code envelope = '''' \<and> env_Message envelope = '''' \<and>
          (case xml_direct data of
             Inl xmlErr \<Rightarrow> True
           | Inr direct \<Rightarrow> api_Code direct = '''' \<and> api_Message direct = ''''))"

section \<open>Reading an inline policy\<close>

text \<open>
  \<^verbatim>\<open>type getUserPolicyResponse struct { UserName, PolicyName, PolicyDocument string }\<close>

  \<^verbatim>\<open>func (c *iamClient) GetUserPolicy(ctx, userName, policyName string) (string, error)\<close>.
  A \<^verbatim>\<open>url.Values\<close> maps a key to a list of values, and \<^verbatim>\<open>Set\<close> stores a single one.
  The request goes to the network: \<open>doIAMAction\<close> stands for
  \<^verbatim>\<open>c.doIAMAction(ctx, vals, &out)\<close>, giving the error or the response decoded into
  \<^verbatim>\<open>out\<close>.
\<close>

record getUserPolicyResponse =
  UserName :: string
  PolicyName :: string
  PolicyDocument :: string

type_synonym url_Values = "string \<rightharpoonup> string list"

definition Values_Set :: "url_Values \<Rightarrow> string \<Rightarrow> string \<Rightarrow> url_Values" where
  "Values_Set vals key v = vals(key \<mapsto> [v])"

definition getUserPolicy_form :: "string \<Rightarrow> string \<Rightarrow> url_Values" where
  "getUserPolicy_form userName policyName =
     Values_Set (Values_Set (Values_Set (Values_Set Map.empty
       ''Action'' ''GetUserPolicy'') ''Version'' ''2010-05-08'') ''UserName'' userName)
       ''PolicyName'' policyName"

definition GetUserPolicy ::
  "(url_Values \<Rightarrow> go_error + getUserPolicyResponse) \<Rightarrow> string \<Rightarrow> string \<Rightarrow> go_error + string" where
  "GetUserPolicy doIAMAction userName policyName =
     (case doIAMAction (getUserPolicy_form userName policyName) of
        Inl err \<Rightarrow> Inl err
      | Inr out \<Rightarrow>
          (case url_QueryUnescape (PolicyDocument out) of
             Inl err \<Rightarrow> Inr (PolicyDocument out)
           | Inr decoded \<Rightarrow> Inr decoded))"

section \<open>Comparing policy documents (seaweedfs/policy\_json.go)\<close>

text \<open>
  \<^verbatim>\<open>func normalizeJSONString(raw string) (string, error)\<close> and
  \<^verbatim>\<open>func policiesSemanticallyEqual(a string, b string) bool\<close>. The codec of
  encoding/json is no code of this package: \<open>json_Unmarshal\<close> stands for
  \<^verbatim>\<open>json.Unmarshal([]byte(raw), &value)\<close> into a generic value of type \<open>'v\<close>, and
  \<open>json_Marshal\<close> for \<^verbatim>\<open>json.Marshal(value)\<close>.
\<close>

definition normalizeJSONString ::
  "(string \<Rightarrow> go_error + 'v) \<Rightarrow> ('v \<Rightarrow> go_error + string) \<Rightarrow> string \<Rightarrow> go_error + string" where
  "normalizeJSONString json_Unmarshal json_Marshal raw =
     (case json_Unmarshal raw of
        Inl err \<Rightarrow> Inl err
      | Inr v \<Rightarrow>
          (case json_Marshal v of
             Inl err \<Rightarrow> Inl err
           | Inr normalized \<Rightarrow> Inr normalized))"

definition policiesSemanticallyEqual ::
  "(string \<Rightarrow> go_error + 'v) \<Rightarrow> ('v \<Rightarrow> go_error + string) \<Rightarrow> string \<Rightarrow> string \<Rightarrow> bool" where
  "policiesSemanticallyEqual json_Unmarshal json_Marshal a b =
     (case (normalizeJSONString json_Unmarshal json_Marshal a,
            normalizeJSONString json_Unmarshal json_Marshal b) of
        (Inr na, Inr nb) \<Rightarrow> na = nb
      | _ \<Rightarrow> strings_TrimSpace a = strings_TrimSpace b)"

text \<open>
  Inputs for the examples. A codec that knows three documents, the array \<open>[1,2]\<close>
  written with and without a blank and the array \<open>[1,3]\<close>, and refuses every other text.
  The handler of \<^verbatim>\<open>GetUserPolicy\<close> of the server in
  \<^verbatim>\<open>TestIAMClientAccessKeyPolicyAndBucket\<close>, as the client sees it through
  \<^verbatim>\<open>doIAMAction\<close>: it looks the policy up under \<^verbatim>\<open>user + ":" + name\<close> and answers 404
  with \<^verbatim>\<open>NoSuchEntity\<close> when there is none.
\<close>

definition array_Unmarshal :: "string \<Rightarrow> go_error + nat list" where
  "array_Unmarshal raw =
     (if raw = ''[1,2]'' \<or> raw = ''[1, 2]'' then Inr [1, 2]
      else if raw = ''[1,3]'' then Inr [1, 3]
      else Inl (ErrorString ''invalid character''))"

definition array_Marshal :: "nat list \<Rightarrow> go_error + string" where
  "array_Marshal v =
     (if v = [1, 2] then Inr ''[1,2]''
      else if v = [1, 3] then Inr ''[1,3]''
      else Inl (ErrorString ''unsupported value''))"

definition Values_Get :: "url_Values \<Rightarrow> string \<Rightarrow> string" where
  "Values_Get vals key = (case vals key of Some (v # vs) \<Rightarrow> v | _ \<Rightarrow> '''')"

definition test_server_GetUserPolicy ::
  "(string \<rightharpoonup> string) \<Rightarrow> url_Values \<Rightarrow> go_error + getUserPolicyResponse" where
  "test_server_GetUserPolicy policies form =
     (let user = Values_Get form ''UserName''; name = Values_Get form ''PolicyName'' in
      case policies (user @ '':'' @ name) of
        None \<Rightarrow> Inl (IamErr \<lparr>Code = ''NoSuchEntity'', Message = ''Not found''\<rparr>)
      | Some val \<Rightarrow> Inr \<lparr>UserName = user, PolicyName = name, PolicyDocument = val\<rparr>)"

section \<open>The per-user lock registry (seaweedfs/provider.go)\<close>

text \<open>
  \<^verbatim>\<open>type providerData struct { client *iamClient; iamWrite sync.Mutex; lockMu sync.Mutex;
       userLocks map[string]*sync.Mutex }\<close>

  A \<^verbatim>\<open>sync.Mutex\<close> is its state, locked or not. The two mutexes of the struct are fields;
  the mutexes of the registry are allocated by \<^verbatim>\<open>getUserLock\<close> and live in a store,
  where a \<^verbatim>\<open>*sync.Mutex\<close> is an address: the index into \<open>mutexes\<close>. The map may be nil.
  The registry hands out only addresses it has allocated; an address outside the store
  counts as a mutex that is not locked.
  The list \<open>events\<close> is not in the source: it records, in order, every \<^verbatim>\<open>Lock\<close> and
  \<^verbatim>\<open>Unlock\<close> that returns and every call of the wrapped function.
\<close>

datatype mutex_ref = IamWrite | LockMu | UserLock nat

datatype event = Locked mutex_ref | Unlocked mutex_ref | Called

record providerData =
  iamWrite :: bool
  lockMu :: bool
  userLocks :: "(string \<rightharpoonup> nat) option"

record memory =
  provider :: providerData
  mutexes :: "bool list"
  events :: "event list"


datatype 'a exec = Done 'a | Blocked | Fatal

definition then_exec :: "'a exec \<Rightarrow> ('a \<Rightarrow> 'b exec) \<Rightarrow> 'b exec" where
  "then_exec x f = (case x of Done a \<Rightarrow> f a | Blocked \<Rightarrow> Blocked | Fatal \<Rightarrow> Fatal)"

fun held :: "memory \<Rightarrow> mutex_ref \<Rightarrow> bool" where
  "held m IamWrite = iamWrite (provider m)"
| "held m LockMu = lockMu (provider m)"
| "held m (UserLock a) = (a < length (mutexes m) \<and> mutexes m ! a)"

fun set_held :: "memory \<Rightarrow> mutex_ref \<Rightarrow> bool \<Rightarrow> memory" where
  "set_held m IamWrite b = m\<lparr>provider := (provider m)\<lparr>iamWrite := b\<rparr>\<rparr>"
| "set_held m LockMu b = m\<lparr>provider := (provider m)\<lparr>lockMu := b\<rparr>\<rparr>"
| "set_held m (UserLock a) b = m\<lparr>mutexes := (mutexes m)[a := b]\<rparr>"

declare held.simps [simp del] set_held.simps [simp del]

definition Mutex_Lock :: "memory \<Rightarrow> mutex_ref \<Rightarrow> memory exec" where
  "Mutex_Lock m r =
     (if held m r then Blocked
      else Done ((set_held m r True)\<lparr>events := events m @ [Locked r]\<rparr>))"

definition Mutex_Unlock :: "memory \<Rightarrow> mutex_ref \<Rightarrow> memory exec" where
  "Mutex_Unlock m r =
     (if \<not> held m r then Fatal
      else Done ((set_held m r False)\<lparr>events := events m @ [Unlocked r]\<rparr>))"

text \<open>
  \<^verbatim>\<open>func (d *providerData) getUserLock(userName string) *sync.Mutex\<close>. Its body
  between \<^verbatim>\<open>d.lockMu.Lock()\<close> and the deferred \<^verbatim>\<open>d.lockMu.Unlock()\<close>, which runs when the
  function returns on either path: a nil map is replaced by an empty one; the lock of a
  registered user is returned; for a new user a mutex is allocated, registered and
  returned.
\<close>

definition getUserLock_body :: "memory \<Rightarrow> string \<Rightarrow> nat \<times> memory" where
  "getUserLock_body m1 userName =
     (let locks = (case userLocks (provider m1) of None \<Rightarrow> Map.empty | Some ls \<Rightarrow> ls);
          m2 = m1\<lparr>provider := (provider m1)\<lparr>userLocks := Some locks\<rparr>\<rparr>
      in
      case locks userName of
        Some lock \<Rightarrow> (lock, m2)
      | None \<Rightarrow>
          let lock = length (mutexes m2) in
          (lock, m2\<lparr>mutexes := mutexes m2 @ [False],
                    provider := (provider m2)\<lparr>userLocks := Some (locks(userName \<mapsto> lock))\<rparr>\<rparr>))"




definition registered :: "memory \<Rightarrow> string \<Rightarrow> nat option" where
  "registered m userName =
     (case userLocks (provider m) of None \<Rightarrow> None | Some ls \<Rightarrow> ls userName)"


definition new_providerData :: memory where
  "new_providerData =
     \<lparr>provider = \<lparr>iamWrite = False, lockMu = False, userLocks = Some Map.empty\<rparr>,
      mutexes = [], events = []\<rparr>"




section \<open>Goroutines calling withUserLock concurrently\<close>

text \<open>
  Several goroutines share one \<^verbatim>\<open>providerData\<close>. Each is at a point of
  \<^verbatim>\<open>withUserLock\<close>: outside a call, or before one of its operations on a mutex (with
  the key of the call and, once \<^verbatim>\<open>getUserLock\<close> has found it, the lock), or inside the
  wrapped function. \<^verbatim>\<open>getUserLock\<close> is inlined at its call.
\<close>

datatype pc =
    Idle
  | AtGateLock string
  | AtLockMuLock string
  | AtLookup string
  | AtLockMuUnlock string nat
  | AtUserLock string nat
  | InBody string nat
  | AtUserUnlock string nat
  | AtGateUnlock string

text \<open>
  One operation of a goroutine at \<open>p\<close> on the shared memory: the memory and the point
  afterwards. A \<^verbatim>\<open>Lock\<close> of a locked mutex is \<^term>\<open>Blocked\<close>: the goroutine cannot take
  the step now. An idle goroutine calls \<^verbatim>\<open>withUserLock\<close> with the key \<open>key\<close>; the step
  out of \<^term>\<open>InBody\<close> is the wrapped function returning or panicking.
\<close>

fun goroutine_step :: "memory \<Rightarrow> pc \<Rightarrow> string \<Rightarrow> (memory \<times> pc) exec" where
  "goroutine_step m Idle key = Done (m, AtGateLock key)"
| "goroutine_step m (AtGateLock k) key =
     then_exec (Mutex_Lock m IamWrite) (\<lambda>m'. Done (m', AtLockMuLock k))"
| "goroutine_step m (AtLockMuLock k) key =
     then_exec (Mutex_Lock m LockMu) (\<lambda>m'. Done (m', AtLookup k))"
| "goroutine_step m (AtLookup k) key =
     (case getUserLock_body m k of (lock, m') \<Rightarrow> Done (m', AtLockMuUnlock k lock))"
| "goroutine_step m (AtLockMuUnlock k lock) key =
     then_exec (Mutex_Unlock m LockMu) (\<lambda>m'. Done (m', AtUserLock k lock))"
| "goroutine_step m (AtUserLock k lock) key =
     then_exec (Mutex_Lock m (UserLock lock)) (\<lambda>m'. Done (m', InBody k lock))"
| "goroutine_step m (InBody k lock) key =
     Done (m\<lparr>events := events m @ [Called]\<rparr>, AtUserUnlock k lock)"
| "goroutine_step m (AtUserUnlock k lock) key =
     then_exec (Mutex_Unlock m (UserLock lock)) (\<lambda>m'. Done (m', AtGateUnlock k))"
| "goroutine_step m (AtGateUnlock k) key =
     then_exec (Mutex_Unlock m IamWrite) (\<lambda>m'. Done (m', Idle))"

text \<open>
  A configuration is the shared memory with the point of every goroutine. A schedule
  names, step by step, the goroutine that runs (and the key it calls with, if it is
  idle); \<open>run\<close> follows a schedule, and stops with \<^term>\<open>Blocked\<close> when the schedule
  names a goroutine that cannot take its step.
\<close>

record config =
  mem :: memory
  pcs :: "nat \<Rightarrow> pc"

definition sched_step :: "config \<Rightarrow> nat \<times> string \<Rightarrow> config exec" where
  "sched_step c x =
     (case x of (g, key) \<Rightarrow>
        then_exec (goroutine_step (mem c) (pcs c g) key)
          (\<lambda>(m', p'). Done \<lparr>mem = m', pcs = (pcs c)(g := p')\<rparr>))"

fun run :: "config \<Rightarrow> (nat \<times> string) list \<Rightarrow> config exec" where
  "run c [] = Done c"
| "run c (x # xs) = then_exec (sched_step c x) (\<lambda>c'. run c' xs)"

definition initial :: "config \<Rightarrow> bool" where
  "initial c = ((\<forall>g. pcs c g = Idle) \<and> \<not> held (mem c) IamWrite \<and> \<not> held (mem c) LockMu)"

definition in_body :: "pc \<Rightarrow> bool" where
  "in_body p = (case p of InBody k lock \<Rightarrow> True | _ \<Rightarrow> False)"

text \<open>The points at which a goroutine holds the write gate.\<close>

definition holds_gate :: "pc \<Rightarrow> bool" where
  "holds_gate p = (case p of Idle \<Rightarrow> False | AtGateLock k \<Rightarrow> False | _ \<Rightarrow> True)"

definition gate_invariant :: "config \<Rightarrow> bool" where
  "gate_invariant c =
     ((\<forall>g g'. holds_gate (pcs c g) \<and> holds_gate (pcs c g') \<longrightarrow> g = g') \<and>
      ((\<exists>g. holds_gate (pcs c g)) \<longrightarrow> held (mem c) IamWrite))"

definition start_config :: config where
  "start_config = \<lparr>mem = new_providerData, pcs = (\<lambda>g. Idle)\<rparr>"

section \<open>Properties of the error classifier\<close>

text \<open>
  C2. The classifier predicates decide by the code of an API error alone:
  \<^verbatim>\<open>NoSuchEntity\<close> is not-found, \<^verbatim>\<open>EntityAlreadyExists\<close> is already-exists,
  \<^verbatim>\<open>BucketAlreadyOwnedByYou\<close> and \<^verbatim>\<open>BucketAlreadyExists\<close> are bucket-already-exists,
  \<^verbatim>\<open>ServiceFailure\<close>, \<^verbatim>\<open>HTTP500\<close> and \<^verbatim>\<open>HTTP503\<close> are service failures; an error
  is retryable exactly when it is not-found or a service failure, so \<^verbatim>\<open>NoSuchEntity\<close> is
  retryable and \<^verbatim>\<open>EntityAlreadyExists\<close> is not.
\<close>

theorem classifier_decides_by_code:
  "(isNoSuchEntityError (IamErr \<lparr>Code = c, Message = m\<rparr>) \<longleftrightarrow> c = ''NoSuchEntity'') \<and>
   (isEntityAlreadyExistsError (IamErr \<lparr>Code = c, Message = m\<rparr>) \<longleftrightarrow>
      c = ''EntityAlreadyExists'') \<and>
   (isBucketAlreadyExistsError (IamErr \<lparr>Code = c, Message = m\<rparr>) \<longleftrightarrow>
      c = ''BucketAlreadyOwnedByYou'' \<or> c = ''BucketAlreadyExists'') \<and>
   (isServiceFailureError (IamErr \<lparr>Code = c, Message = m\<rparr>) \<longleftrightarrow>
      c = ''ServiceFailure'' \<or> c = ''HTTP500'' \<or> c = ''HTTP503'') \<and>
   (isRetryableIAMError err \<longleftrightarrow> isNoSuchEntityError err \<or> isServiceFailureError err) \<and>
   isRetryableIAMError (IamErr \<lparr>Code = ''NoSuchEntity'', Message = m\<rparr>) \<and>
   isRetryableIAMError (IamErr \<lparr>Code = ''ServiceFailure'', Message = m\<rparr>) \<and>
   \<not> isRetryableIAMError (IamErr \<lparr>Code = ''EntityAlreadyExists'', Message = m\<rparr>)"
  by (simp add: isNoSuchEntityError_def isEntityAlreadyExistsError_def
      isBucketAlreadyExistsError_def isServiceFailureError_def isRetryableIAMError_def)

theorem classifier_decides_by_code_witness:
  "isEntityAlreadyExistsError (IamErr \<lparr>Code = ''EntityAlreadyExists'', Message = ''exists''\<rparr>) \<and>
   isBucketAlreadyExistsError (IamErr \<lparr>Code = ''BucketAlreadyOwnedByYou'', Message = ''exists''\<rparr>) \<and>
   isRetryableIAMError (IamErr \<lparr>Code = ''ServiceFailure'', Message = ''temporary''\<rparr>) \<and>
   \<not> isServiceFailureError (IamErr \<lparr>Code = ''HTTP502'', Message = ''temporary''\<rparr>)"
  using classifier_decides_by_code [of "''EntityAlreadyExists''" "''exists''" "ErrorString []"]
    classifier_decides_by_code [of "''BucketAlreadyOwnedByYou''" "''exists''" "ErrorString []"]
    classifier_decides_by_code [of "''ServiceFailure''" "''temporary''" "ErrorString []"]
    classifier_decides_by_code [of "''HTTP502''" "''temporary''" "ErrorString []"]
  by simp

text \<open>
  C7. The no-such-bucket predicate holds of an API error exactly when its code is
  \<^verbatim>\<open>NoSuchBucket\<close>, \<^verbatim>\<open>NotFound\<close>, \<^verbatim>\<open>NoSuchKey\<close> or \<^verbatim>\<open>NoSuchEntity\<close>, whatever its
  message.
\<close>

theorem isNoSuchBucketError_iff:
  "(isNoSuchBucketError (IamErr \<lparr>Code = c, Message = m\<rparr>) \<longleftrightarrow>
      c = ''NoSuchBucket'' \<or> c = ''NotFound'' \<or> c = ''NoSuchKey'' \<or> c = ''NoSuchEntity'') \<and>
   isNoSuchBucketError (IamErr \<lparr>Code = c, Message = m\<rparr>) =
      isNoSuchBucketError (IamErr \<lparr>Code = c, Message = m'\<rparr>)"
  by (simp add: isNoSuchBucketError_def)

theorem isNoSuchBucketError_iff_witness:
  "isNoSuchBucketError (IamErr \<lparr>Code = ''NoSuchKey'', Message = ''Not Found''\<rparr>) \<and>
   \<not> isNoSuchBucketError (IamErr \<lparr>Code = ''NoSuchTagSet'', Message = ''No tags''\<rparr>)"
  using isNoSuchBucketError_iff [of "''NoSuchKey''" "''Not Found''" "[]"]
    isNoSuchBucketError_iff [of "''NoSuchTagSet''" "''No tags''" "[]"]
  by simp

section \<open>Properties of the retry engine\<close>

lemma fn_result_Suc: "fn_result fn s (Suc j) = fn_result fn (snd (fn s)) j"
  by (simp add: fn_result_def)

lemma fails_retryably_Suc: "fails_retryably fn s (Suc j) = fails_retryably fn (snd (fn s)) j"
  by (simp add: fails_retryably_def fn_result_Suc)

lemma retry_loop_succeeds:
  assumes "\<forall>j<k. fails_retryably fn s j \<and> \<not> ctx_Done ctx (i + int j)"
    and "fn_result fn s k = None"
    and "i + int k < attempts"
  shows "returned (retry_loop ctx attempts fn i delay lastErr s calls ts) = None \<and>
         fn_state (retry_loop ctx attempts fn i delay lastErr s calls ts) = fn_after fn (Suc k) s \<and>
         invocations (retry_loop ctx attempts fn i delay lastErr s calls ts) = calls + k + 1"
  using assms
proof (induction k arbitrary: i delay lastErr s calls ts)
  case 0
  obtain r s' where fs: "fn s = (r, s')" by (cases "fn s")
  with 0 have r: "r = None" by (simp add: fn_result_def)
  have "retry_loop ctx attempts fn i delay lastErr s calls ts =
          \<lparr>returned = None, fn_state = s', invocations = Suc calls, timers = ts\<rparr>"
    using 0 fs r by (subst retry_loop.simps) simp
  then show ?case using fs by simp
next
  case (Suc k)
  obtain r s' where fs: "fn s = (r, s')" by (cases "fn s")
  from Suc.prems(1) have "fails_retryably fn s 0" and nd: "\<not> ctx_Done ctx i" by force+
  then obtain e where r: "r = Some e" and e: "isRetryableIAMError e"
    using fs by (auto simp: fails_retryably_def fn_result_def split: option.splits)
  have 1: "\<forall>j<k. fails_retryably fn s' j \<and> \<not> ctx_Done ctx (i + 1 + int j)"
  proof (intro allI impI)
    fix j assume "j < k"
    then have "fails_retryably fn s (Suc j) \<and> \<not> ctx_Done ctx (i + int (Suc j))"
      using Suc.prems(1) by blast
    then show "fails_retryably fn s' j \<and> \<not> ctx_Done ctx (i + 1 + int j)"
      using fs by (simp add: fails_retryably_Suc add.assoc)
  qed
  have 2: "fn_result fn s' k = None"
    using Suc.prems(2) fs by (simp add: fn_result_Suc)
  have 3: "i + 1 + int k < attempts" using Suc.prems(3) by simp
  have ne: "i \<noteq> attempts - 1" and lt: "i < attempts" using Suc.prems(3) by auto
  have "retry_loop ctx attempts fn i delay lastErr s calls ts =
          retry_loop ctx attempts fn (i + 1)
            (if delay * 2 > 2 * Second then 2 * Second else delay * 2)
            (Some e) s' (Suc calls) (ts @ [delay])"
    using fs r e ne lt nd by (subst retry_loop.simps) simp
  then show ?case using Suc.IH [OF 1 2 3] fs by simp
qed

lemma retry_loop_stops:
  assumes "fn s = (Some e, s')" and "\<not> isRetryableIAMError e" and "i < attempts"
  shows "retry_loop ctx attempts fn i delay lastErr s calls ts =
           \<lparr>returned = Some e, fn_state = s', invocations = Suc calls, timers = ts\<rparr>"
  using assms by (subst retry_loop.simps) simp

lemma retry_loop_exhausts:
  assumes "\<forall>j\<le>m. fails_retryably fn s j"
    and "\<forall>j<m. \<not> ctx_Done ctx (i + int j)"
    and "i + int m = attempts - 1"
  shows "returned (retry_loop ctx attempts fn i delay lastErr s calls ts) = fn_result fn s m \<and>
         fn_state (retry_loop ctx attempts fn i delay lastErr s calls ts) = fn_after fn (Suc m) s \<and>
         invocations (retry_loop ctx attempts fn i delay lastErr s calls ts) = calls + m + 1"
  using assms
proof (induction m arbitrary: i delay lastErr s calls ts)
  case 0
  obtain r s' where fs: "fn s = (r, s')" by (cases "fn s")
  with 0 obtain e where r: "r = Some e" and e: "isRetryableIAMError e"
    by (auto simp: fails_retryably_def fn_result_def split: option.splits)
  have "retry_loop ctx attempts fn i delay lastErr s calls ts =
          \<lparr>returned = Some e, fn_state = s', invocations = Suc calls, timers = ts\<rparr>"
    using 0 fs r e by (subst retry_loop.simps) simp
  then show ?case using fs r by (simp add: fn_result_def)
next
  case (Suc m)
  obtain r s' where fs: "fn s = (r, s')" by (cases "fn s")
  from Suc.prems have "fails_retryably fn s 0" and nd: "\<not> ctx_Done ctx i" by force+
  then obtain e where r: "r = Some e" and e: "isRetryableIAMError e"
    using fs by (auto simp: fails_retryably_def fn_result_def split: option.splits)
  have 1: "\<forall>j\<le>m. fails_retryably fn s' j"
  proof (intro allI impI)
    fix j assume "j \<le> m"
    then have "fails_retryably fn s (Suc j)" using Suc.prems(1) by simp
    then show "fails_retryably fn s' j" using fs by (simp add: fails_retryably_Suc)
  qed
  have 2: "\<forall>j<m. \<not> ctx_Done ctx (i + 1 + int j)"
  proof (intro allI impI)
    fix j assume "j < m"
    then have "\<not> ctx_Done ctx (i + int (Suc j))" using Suc.prems(2) by blast
    then show "\<not> ctx_Done ctx (i + 1 + int j)" by (simp add: add.assoc)
  qed
  have 3: "i + 1 + int m = attempts - 1" using Suc.prems(3) by simp
  have ne: "i \<noteq> attempts - 1" and lt: "i < attempts" using Suc.prems(3) by auto
  have "retry_loop ctx attempts fn i delay lastErr s calls ts =
          retry_loop ctx attempts fn (i + 1)
            (if delay * 2 > 2 * Second then 2 * Second else delay * 2)
            (Some e) s' (Suc calls) (ts @ [delay])"
    using fs r e ne lt nd by (subst retry_loop.simps) simp
  then show ?case using Suc.IH [OF 1 2 3] fs by (simp add: fn_result_Suc)
qed

text \<open>
  C1, as amended. Provided no wait between attempts is cut short by the context:
  if \<open>fn\<close> fails with a retryable error exactly \<open>k\<close> times and then succeeds, and
  \<open>max n 1 \<ge> k + 1\<close>, the engine returns nil after exactly \<open>k + 1\<close> invocations; if \<open>fn\<close>
  fails with a retryable error on every invocation, the engine invokes it exactly
  \<open>max n 1\<close> times and returns the last error observed. With any context, if the first
  invocation returns an error that is not retryable, the engine invokes \<open>fn\<close> exactly once
  and returns that error unchanged.
\<close>

theorem retry_invocations:
  fixes fn :: "'s \<Rightarrow> go_error option \<times> 's"
  defines "r \<equiv> \<lambda>ctx n s. retryIAMEventuallyConsistent ctx n fn s"
  shows
  "((\<forall>j<k. fails_retryably fn s j \<and> \<not> ctx_Done ctx (int j)) \<and> fn_result fn s k = None \<and>
      int k + 1 \<le> max n 1 \<longrightarrow>
      returned (r ctx n s) = None \<and> invocations (r ctx n s) = k + 1 \<and>
      fn_state (r ctx n s) = fn_after fn (k + 1) s) \<and>
   (fn s = (Some e, s') \<and> \<not> isRetryableIAMError e \<longrightarrow>
      returned (r ctx n s) = Some e \<and> invocations (r ctx n s) = 1 \<and> fn_state (r ctx n s) = s') \<and>
   ((\<forall>j. fails_retryably fn s j) \<and> (\<forall>j. int j + 1 < max n 1 \<longrightarrow> \<not> ctx_Done ctx (int j)) \<longrightarrow>
      invocations (r ctx n s) = nat (max n 1) \<and>
      returned (r ctx n s) = fn_result fn s (nat (max n 1) - 1) \<and>
      fn_state (r ctx n s) = fn_after fn (nat (max n 1)) s)"
proof (intro conjI impI)
  have a: "(if n < 1 then 1 else n) = max n 1" by simp
  {
    assume h: "(\<forall>j<k. fails_retryably fn s j \<and> \<not> ctx_Done ctx (int j)) \<and>
      fn_result fn s k = None \<and> int k + 1 \<le> max n 1"
    then have 1: "\<forall>j<k. fails_retryably fn s j \<and> \<not> ctx_Done ctx (0 + int j)" by simp
    from h have 2: "fn_result fn s k = None" and 3: "0 + int k < max n 1" by simp_all
    note retry_loop_succeeds [OF 1 2 3, of "200 * Millisecond" None 0 "[]"]
    then show "returned (r ctx n s) = None" "invocations (r ctx n s) = k + 1"
      "fn_state (r ctx n s) = fn_after fn (k + 1) s"
      unfolding r_def retryIAMEventuallyConsistent_def a by simp_all
  }
  {
    assume h: "fn s = (Some e, s') \<and> \<not> isRetryableIAMError e"
    then have 1: "fn s = (Some e, s')" and 2: "\<not> isRetryableIAMError e" by simp_all
    have 3: "0 < max n 1" by simp
    note retry_loop_stops [where fn = fn and s = s and i = 0 and attempts = "max n 1" and ctx = ctx
        and delay = "200 * Millisecond" and lastErr = None and calls = 0 and ts = "[]", OF 1 2 3]
    then show "returned (r ctx n s) = Some e" "invocations (r ctx n s) = 1"
      "fn_state (r ctx n s) = s'"
      unfolding r_def retryIAMEventuallyConsistent_def a by simp_all
  }
  {
    assume h: "(\<forall>j. fails_retryably fn s j) \<and>
      (\<forall>j. int j + 1 < max n 1 \<longrightarrow> \<not> ctx_Done ctx (int j))"
    define m where "m = nat (max n 1) - 1"
    have m: "int m = max n 1 - 1" unfolding m_def by linarith
    from h have 1: "\<forall>j\<le>m. fails_retryably fn s j" by simp
    from h m have 2: "\<forall>j<m. \<not> ctx_Done ctx (0 + int j)" by simp
    from m have 3: "0 + int m = max n 1 - 1" by simp
    have 4: "Suc m = nat (max n 1)" unfolding m_def by linarith
    note retry_loop_exhausts [OF 1 2 3, of "200 * Millisecond" None 0 "[]"]
    then show "invocations (r ctx n s) = nat (max n 1)"
      "returned (r ctx n s) = fn_result fn s (nat (max n 1) - 1)"
      "fn_state (r ctx n s) = fn_after fn (nat (max n 1)) s"
      unfolding r_def retryIAMEventuallyConsistent_def a using 4 by (simp_all add: m_def)
  }
qed

lemma test_fn_temporary_results:
  "fails_retryably test_fn_temporary 0 0" "fails_retryably test_fn_temporary 0 (Suc 0)"
  "fn_result test_fn_temporary 0 (Suc (Suc 0)) = None"
  "fn_after test_fn_temporary (Suc (Suc (Suc 0))) 0 = 3"
  by (simp_all add: fails_retryably_def fn_result_def test_fn_temporary_def
      isRetryableIAMError_def isServiceFailureError_def)

lemma fn_after_always_ServiceFailure:
  "fn_after fn_always_ServiceFailure j s = s + int j"
  by (induction j arbitrary: s) (simp_all add: fn_always_ServiceFailure_def)

lemma fn_always_ServiceFailure_results:
  "fn_result fn_always_ServiceFailure s j =
     Some (IamErr \<lparr>Code = ''ServiceFailure'', Message = ''temporary''\<rparr>)"
  "fails_retryably fn_always_ServiceFailure s j"
  by (simp_all add: fails_retryably_def fn_result_def fn_always_ServiceFailure_def
      isRetryableIAMError_def isServiceFailureError_def)

theorem retry_invocations_witness:
  "returned (retryIAMEventuallyConsistent context_Background 4 test_fn_temporary 0) = None \<and>
   invocations (retryIAMEventuallyConsistent context_Background 4 test_fn_temporary 0) = 3 \<and>
   fn_state (retryIAMEventuallyConsistent context_Background 4 test_fn_temporary 0) = 3 \<and>
   returned (retryIAMEventuallyConsistent context_Background 5 test_fn_boom 0) =
     Some (ErrorString ''boom'') \<and>
   invocations (retryIAMEventuallyConsistent context_Background 5 test_fn_boom 0) = 1 \<and>
   invocations (retryIAMEventuallyConsistent context_Background 5 fn_always_ServiceFailure 0) = 5 \<and>
   returned (retryIAMEventuallyConsistent context_Background 5 fn_always_ServiceFailure 0) =
     Some (IamErr \<lparr>Code = ''ServiceFailure'', Message = ''temporary''\<rparr>) \<and>
   invocations (retryIAMEventuallyConsistent context_Background 0 fn_always_ServiceFailure 0) = 1"
proof -
  have a: "(\<forall>j<2. fails_retryably test_fn_temporary 0 j \<and> \<not> ctx_Done context_Background (int j)) \<and>
      fn_result test_fn_temporary 0 2 = None \<and> int 2 + 1 \<le> max 4 1"
    using test_fn_temporary_results
    by (simp add: context_Background_def numeral_2_eq_2 less_Suc_eq)
  have b: "test_fn_boom 0 = (Some (ErrorString ''boom''), 1) \<and>
      \<not> isRetryableIAMError (ErrorString ''boom'')"
    by (simp add: test_fn_boom_def isRetryableIAMError_def isNoSuchEntityError_def
        isServiceFailureError_def)
  have c: "\<And>n. (\<forall>j. fails_retryably fn_always_ServiceFailure 0 j) \<and>
      (\<forall>j. int j + 1 < max n 1 \<longrightarrow> \<not> ctx_Done context_Background (int j))"
    by (simp add: fn_always_ServiceFailure_results context_Background_def)
  have "returned (retryIAMEventuallyConsistent context_Background 4 test_fn_temporary 0) = None \<and>
      invocations (retryIAMEventuallyConsistent context_Background 4 test_fn_temporary 0) = 2 + 1 \<and>
      fn_state (retryIAMEventuallyConsistent context_Background 4 test_fn_temporary 0) =
        fn_after test_fn_temporary (2 + 1) 0"
    using a retry_invocations [where k = 2 and fn = test_fn_temporary and s = 0
        and ctx = context_Background and n = 4, THEN conjunct1]
    by blast
  moreover have "fn_after test_fn_temporary (2 + 1) 0 = 3"
    by (simp add: numeral_eq_Suc test_fn_temporary_def)
  ultimately have 1:
    "returned (retryIAMEventuallyConsistent context_Background 4 test_fn_temporary 0) = None \<and>
      invocations (retryIAMEventuallyConsistent context_Background 4 test_fn_temporary 0) = 3 \<and>
      fn_state (retryIAMEventuallyConsistent context_Background 4 test_fn_temporary 0) = 3"
    by simp
  have 2: "returned (retryIAMEventuallyConsistent context_Background 5 test_fn_boom 0) =
        Some (ErrorString ''boom'') \<and>
      invocations (retryIAMEventuallyConsistent context_Background 5 test_fn_boom 0) = 1"
    using b retry_invocations [where fn = test_fn_boom and s = 0 and ctx = context_Background
        and n = 5 and e = "ErrorString ''boom''" and s' = 1, THEN conjunct2, THEN conjunct1]
    by blast
  have 3: "invocations (retryIAMEventuallyConsistent context_Background 5 fn_always_ServiceFailure 0) = 5 \<and>
      returned (retryIAMEventuallyConsistent context_Background 5 fn_always_ServiceFailure 0) =
        Some (IamErr \<lparr>Code = ''ServiceFailure'', Message = ''temporary''\<rparr>)"
    using c [of 5] retry_invocations [where fn = fn_always_ServiceFailure and s = 0
        and ctx = context_Background and n = 5, THEN conjunct2, THEN conjunct2]
    by (simp add: fn_always_ServiceFailure_results)
  have 4: "invocations (retryIAMEventuallyConsistent context_Background 0 fn_always_ServiceFailure 0) = 1"
    using c [of 0] retry_invocations [where fn = fn_always_ServiceFailure and s = 0
        and ctx = context_Background and n = 0, THEN conjunct2, THEN conjunct2]
    by simp
  from 1 2 3 4 show ?thesis by simp
qed

text \<open>
  C1 as it is written does not hold for every context. The closure of
  \<^verbatim>\<open>TestRetryIAMEventuallyConsistent\<close> fails retryably twice and then succeeds, and the
  budget 4 is at least 3; run under a cancelled context the engine returns the error of
  the context after one invocation, not nil after three.
\<close>

theorem retry_cancelled_counterexample:
  "fails_retryably test_fn_temporary 0 0 \<and> fails_retryably test_fn_temporary 0 1 \<and>
   fn_result test_fn_temporary 0 2 = None \<and> int 2 + 1 \<le> max 4 1 \<and>
   returned (retryIAMEventuallyConsistent context_Cancelled 4 test_fn_temporary 0) =
     Some (ErrorString ''context canceled'') \<and>
   invocations (retryIAMEventuallyConsistent context_Cancelled 4 test_fn_temporary 0) = 1"
proof -
  have "retryIAMEventuallyConsistent context_Cancelled 4 test_fn_temporary 0 =
      \<lparr>returned = Some (ErrorString ''context canceled''), fn_state = 1, invocations = 1,
        timers = [200 * Millisecond]\<rparr>"
    unfolding retryIAMEventuallyConsistent_def
    by (subst retry_loop.simps)
      (simp add: test_fn_temporary_def context_Cancelled_def isRetryableIAMError_def
        isServiceFailureError_def)
  then show ?thesis
    using test_fn_temporary_results by (simp add: numeral_2_eq_2)
qed

section \<open>Properties of the client's constructor\<close>

text \<open>
  C5. \<^verbatim>\<open>newIAMClient\<close> returns an error exactly when the endpoint, the access key or the
  secret key is empty. Every other configuration, an empty region included, gives a
  client and no error; the client's region is then \<^verbatim>\<open>us-east-1\<close> when the configured
  one is empty.
\<close>

theorem newIAMClient_fails_iff:
  "(isl (newIAMClient cfg) \<longleftrightarrow> Endpoint cfg = '''' \<or> AccessKey cfg = '''' \<or> SecretKey cfg = '''') \<and>
   (Endpoint cfg \<noteq> '''' \<and> AccessKey cfg \<noteq> '''' \<and> SecretKey cfg \<noteq> '''' \<longrightarrow>
      (\<exists>client. newIAMClient cfg = Inr client \<and>
         region client = (if Region cfg = '''' then ''us-east-1'' else Region cfg) \<and>
         endpoint client = strings_TrimRight_slash (Endpoint cfg)))"
  by (simp add: newIAMClient_def Let_def)

theorem newIAMClient_fails_iff_witness:
  "\<not> isl (newIAMClient \<lparr>Endpoint = ''http://127.0.0.1:8333/'', Region = '''',
      AccessKey = ''test-key'', SecretKey = ''test-secret'', Insecure = False\<rparr>) \<and>
   isl (newIAMClient \<lparr>Endpoint = ''http://127.0.0.1:8333/'', Region = ''us-east-1'',
      AccessKey = ''test-key'', SecretKey = '''', Insecure = False\<rparr>) \<and>
   (\<exists>client. newIAMClient \<lparr>Endpoint = ''http://127.0.0.1:8333/'', Region = '''',
      AccessKey = ''test-key'', SecretKey = ''test-secret'', Insecure = False\<rparr> = Inr client \<and>
      region client = ''us-east-1'' \<and> endpoint client = ''http://127.0.0.1:8333'')"
proof -
  have "strings_TrimRight_slash ''http://127.0.0.1:8333/'' = ''http://127.0.0.1:8333''"
    by (simp add: strings_TrimRight_slash_def)
  then show ?thesis
    using newIAMClient_fails_iff [of "\<lparr>Endpoint = ''http://127.0.0.1:8333/'', Region = '''',
        AccessKey = ''test-key'', SecretKey = ''test-secret'', Insecure = False\<rparr>"]
      newIAMClient_fails_iff [of "\<lparr>Endpoint = ''http://127.0.0.1:8333/'', Region = ''us-east-1'',
        AccessKey = ''test-key'', SecretKey = '''', Insecure = False\<rparr>"]
    by simp
qed

section \<open>Properties of the decoding of error responses\<close>

text \<open>
  C6. When neither a code nor a message can be decoded from the body (from the nested
  \<^verbatim>\<open>Error\<close> element, the top-level fields or the bare element), \<^verbatim>\<open>parseAPIError\<close>
  returns the error whose code is \<^verbatim>\<open>HTTP\<close> followed by the status in decimal and whose
  message is the body without its surrounding white space. This holds for every status,
  so for every status from 400 on.
\<close>

theorem parseAPIError_fallback:
  assumes "nothing_decoded xml_envelope xml_direct data"
  shows "parseAPIError xml_envelope xml_direct status data =
           IamErr \<lparr>Code = ''HTTP'' @ Sprintf_d status, Message = strings_TrimSpace data\<rparr>"
  using assms
  by (auto simp: parseAPIError_def nothing_decoded_def Let_def split: sum.splits)

theorem parseAPIError_fallback_witness:
  "nothing_decoded (\<lambda>data. Inl (ErrorString ''EOF'')) (\<lambda>data. Inl (ErrorString ''EOF''))
     ''  Service Unavailable  '' \<and>
   parseAPIError (\<lambda>data. Inl (ErrorString ''EOF'')) (\<lambda>data. Inl (ErrorString ''EOF'')) 503
     ''  Service Unavailable  '' =
     IamErr \<lparr>Code = ''HTTP503'', Message = ''Service Unavailable''\<rparr> \<and>
   nothing_decoded
     (\<lambda>data. Inr \<lparr>env_Code = '''', env_Message = '''',
        env_Error = \<lparr>api_Code = '''', api_Message = ''''\<rparr>\<rparr>)
     (\<lambda>data. Inr \<lparr>api_Code = '''', api_Message = ''''\<rparr>) ''<Other/>'' \<and>
   parseAPIError
     (\<lambda>data. Inr \<lparr>env_Code = '''', env_Message = '''',
        env_Error = \<lparr>api_Code = '''', api_Message = ''''\<rparr>\<rparr>)
     (\<lambda>data. Inr \<lparr>api_Code = '''', api_Message = ''''\<rparr>) 404 ''<Other/>'' =
     IamErr \<lparr>Code = ''HTTP404'', Message = ''<Other/>''\<rparr>"
proof -
  have 1: "nothing_decoded (\<lambda>data. Inl (ErrorString ''EOF'')) (\<lambda>data. Inl (ErrorString ''EOF''))
      ''  Service Unavailable  ''"
    by (simp add: nothing_decoded_def)
  have 2: "nothing_decoded
      (\<lambda>data. Inr \<lparr>env_Code = '''', env_Message = '''',
         env_Error = \<lparr>api_Code = '''', api_Message = ''''\<rparr>\<rparr>)
      (\<lambda>data. Inr \<lparr>api_Code = '''', api_Message = ''''\<rparr>) ''<Other/>''"
    by (simp add: nothing_decoded_def)
  have 3: "Sprintf_d 503 = ''503''" "Sprintf_d 404 = ''404''"
    by (simp_all add: Sprintf_d_def decimal.simps)
  have 4: "strings_TrimSpace ''  Service Unavailable  '' = ''Service Unavailable''"
    "strings_TrimSpace ''<Other/>'' = ''<Other/>''"
    by code_simp+
  show ?thesis
    using 1 2 parseAPIError_fallback [OF 1, of 503] parseAPIError_fallback [OF 2, of 404]
    by (simp add: 3 4)
qed

section \<open>Properties of reading an inline policy\<close>

text \<open>
  C10. When the IAM action succeeds, \<^verbatim>\<open>GetUserPolicy\<close> returns the query-unescaped
  \<^verbatim>\<open>PolicyDocument\<close> when unescaping succeeds and the field as it is, with a nil error,
  when unescaping fails; so \<^verbatim>\<open>GetUserPolicy\<close> returns an error exactly when the request
  does, and then the error of the request.
\<close>

theorem GetUserPolicy_result:
  "(doIAMAction (getUserPolicy_form userName policyName) = Inr out \<longrightarrow>
      GetUserPolicy doIAMAction userName policyName =
        (case url_QueryUnescape (PolicyDocument out) of
           Inr decoded \<Rightarrow> Inr decoded
         | Inl err \<Rightarrow> Inr (PolicyDocument out))) \<and>
   (isl (GetUserPolicy doIAMAction userName policyName) \<longleftrightarrow>
      isl (doIAMAction (getUserPolicy_form userName policyName))) \<and>
   (doIAMAction (getUserPolicy_form userName policyName) = Inl err \<longrightarrow>
      GetUserPolicy doIAMAction userName policyName = Inl err)"
  by (auto simp: GetUserPolicy_def split: sum.splits)

theorem GetUserPolicy_result_witness:
  "GetUserPolicy
     (test_server_GetUserPolicy [''alice:p1'' \<mapsto> ''%7B%22Version%22%3A%222012-10-17%22%7D''])
     ''alice'' ''p1'' =
     Inr ([CHR ''{'', CHR 0x22] @ ''Version'' @ [CHR 0x22, CHR '':'', CHR 0x22] @ ''2012-10-17'' @
          [CHR 0x22, CHR ''}'']) \<and>
   GetUserPolicy (test_server_GetUserPolicy [''alice:p1'' \<mapsto> ''100% of s3:*''])
     ''alice'' ''p1'' = Inr ''100% of s3:*'' \<and>
   GetUserPolicy (test_server_GetUserPolicy [''alice:p1'' \<mapsto> ''100% of s3:*''])
     ''bob'' ''p1'' = Inl (IamErr \<lparr>Code = ''NoSuchEntity'', Message = ''Not found''\<rparr>)"
proof -
  have form: "\<And>u n. Values_Get (getUserPolicy_form u n) ''UserName'' = u"
    "\<And>u n. Values_Get (getUserPolicy_form u n) ''PolicyName'' = n"
    by (simp_all add: Values_Get_def getUserPolicy_form_def Values_Set_def)
  have 1: "test_server_GetUserPolicy
      [''alice:p1'' \<mapsto> ''%7B%22Version%22%3A%222012-10-17%22%7D'']
      (getUserPolicy_form ''alice'' ''p1'') =
      Inr \<lparr>UserName = ''alice'', PolicyName = ''p1'',
        PolicyDocument = ''%7B%22Version%22%3A%222012-10-17%22%7D''\<rparr>"
    by (simp add: test_server_GetUserPolicy_def form)
  have 2: "test_server_GetUserPolicy [''alice:p1'' \<mapsto> ''100% of s3:*'']
      (getUserPolicy_form ''alice'' ''p1'') =
      Inr \<lparr>UserName = ''alice'', PolicyName = ''p1'', PolicyDocument = ''100% of s3:*''\<rparr>"
    by (simp add: test_server_GetUserPolicy_def form)
  have 3: "test_server_GetUserPolicy [''alice:p1'' \<mapsto> ''100% of s3:*'']
      (getUserPolicy_form ''bob'' ''p1'') =
      Inl (IamErr \<lparr>Code = ''NoSuchEntity'', Message = ''Not found''\<rparr>)"
    by (simp add: test_server_GetUserPolicy_def form)
  have 4: "url_QueryUnescape ''%7B%22Version%22%3A%222012-10-17%22%7D'' =
      Inr ([CHR ''{'', CHR 0x22] @ ''Version'' @ [CHR 0x22, CHR '':'', CHR 0x22] @ ''2012-10-17'' @
          [CHR 0x22, CHR ''}''])"
    by code_simp
  have 5: "url_QueryUnescape ''100% of s3:*'' = Inl (EscapeError ''% o'')"
    by code_simp
  show ?thesis
    using 1 2 3
      GetUserPolicy_result [where userName = "''alice''" and policyName = "''p1''" and doIAMAction =
        "test_server_GetUserPolicy [''alice:p1'' \<mapsto> ''%7B%22Version%22%3A%222012-10-17%22%7D'']"]
      GetUserPolicy_result [where userName = "''alice''" and policyName = "''p1''" and doIAMAction =
        "test_server_GetUserPolicy [''alice:p1'' \<mapsto> ''100% of s3:*'']"]
      GetUserPolicy_result [where userName = "''bob''" and policyName = "''p1''" and doIAMAction =
        "test_server_GetUserPolicy [''alice:p1'' \<mapsto> ''100% of s3:*'']"]
    by (simp add: 4 5)
qed

section \<open>Properties of the comparison of policy documents\<close>



text \<open>
  C4. When at least one of the two strings does not parse as JSON, the comparison is the
  equality of the two strings without their surrounding white space. The function
  returns a boolean on every input: it has no error result and no step that can fail.
  For instance \<^verbatim>\<open>"  x  "\<close> and \<^verbatim>\<open>"x"\<close> compare equal, \<^verbatim>\<open>x\<close> being no JSON.
\<close>

theorem policiesSemanticallyEqual_fallback:
  "(isl (json_Unmarshal a) \<or> isl (json_Unmarshal b) \<longrightarrow>
      policiesSemanticallyEqual json_Unmarshal json_Marshal a b =
        (strings_TrimSpace a = strings_TrimSpace b)) \<and>
   (isl (json_Unmarshal ''x'') \<or> isl (json_Unmarshal ''  x  '') \<longrightarrow>
      policiesSemanticallyEqual json_Unmarshal json_Marshal ''  x  '' ''x'')"
proof -
  have general: "policiesSemanticallyEqual json_Unmarshal json_Marshal a b =
      (strings_TrimSpace a = strings_TrimSpace b)"
    if "isl (json_Unmarshal a) \<or> isl (json_Unmarshal b)" for a b
    using that
    by (auto simp: policiesSemanticallyEqual_def normalizeJSONString_def isl_def
        split: sum.splits)
  have "strings_TrimSpace ''  x  '' = strings_TrimSpace ''x''"
    by code_simp
  with general [of "''  x  ''" "''x''"] general [of a b] show ?thesis
    by blast
qed

theorem policiesSemanticallyEqual_fallback_witness:
  "isl (array_Unmarshal ''x'') \<and>
   policiesSemanticallyEqual array_Unmarshal array_Marshal ''  x  '' ''x'' \<and>
   \<not> policiesSemanticallyEqual array_Unmarshal array_Marshal ''[1,2]'' ''x'' \<and>
   policiesSemanticallyEqual array_Unmarshal array_Marshal ''[1,2] # '' '' [1,2] #''"
proof -
  have u: "isl (array_Unmarshal ''x'')" "isl (array_Unmarshal ''[1,2] # '')"
    by (simp_all add: array_Unmarshal_def)
  have t: "strings_TrimSpace ''[1,2]'' \<noteq> strings_TrimSpace ''x''"
    "strings_TrimSpace ''[1,2] # '' = strings_TrimSpace '' [1,2] #''"
    by code_simp+
  show ?thesis
    using u t
      policiesSemanticallyEqual_fallback [of array_Unmarshal "''[1,2]''" "''x''" array_Marshal]
      policiesSemanticallyEqual_fallback [of array_Unmarshal "''[1,2] # ''" "'' [1,2] #''" array_Marshal]
    by simp
qed

section \<open>Properties of the per-user lock registry\<close>

lemma held_events [simp]: "held (m\<lparr>events := e\<rparr>) r = held m r"
  by (cases r) (simp_all add: held.simps)

lemma held_set_held [simp]:
  "held (set_held m r b) r' =
     (if r' = r then b \<and> (case r of UserLock a \<Rightarrow> a < length (mutexes m) | _ \<Rightarrow> True)
      else held m r')"
  by (cases r; cases r') (auto simp: held.simps set_held.simps nth_list_update)

lemma registered_set_held [simp]: "registered (set_held m r b) u = registered m u"
  by (cases r) (simp_all add: registered_def set_held.simps)

lemma registered_events [simp]: "registered (m\<lparr>events := e\<rparr>) u = registered m u"
  by (simp add: registered_def)

lemma mutexes_set_held [simp]: "length (mutexes (set_held m r b)) = length (mutexes m)"
  by (cases r) (simp_all add: set_held.simps)

lemma events_set_held [simp]: "events (set_held m r b) = events m"
  by (cases r) (simp_all add: set_held.simps)

lemma mutexes_set_held_field [simp]:
  "mutexes (set_held m IamWrite b) = mutexes m" "mutexes (set_held m LockMu b) = mutexes m"
  by (simp_all add: set_held.simps)








section \<open>Mutual exclusion of concurrent calls\<close>

lemma held_getUserLock_body:
  "getUserLock_body m k = (lock, m') \<Longrightarrow> held m' IamWrite = held m IamWrite"
  by (auto simp: getUserLock_body_def Let_def held.simps split: option.splits)

lemma step_takes_gate:
  assumes "goroutine_step m p key = Done (m', p')" and "\<not> holds_gate p" and "holds_gate p'"
  shows "\<not> held m IamWrite \<and> held m' IamWrite"
  using assms
  by (cases p) (auto simp: holds_gate_def then_exec_def Mutex_Lock_def split: if_splits)

lemma step_keeps_gate:
  assumes "goroutine_step m p key = Done (m', p')" and "holds_gate p" and "holds_gate p'"
  shows "held m' IamWrite = held m IamWrite"
  using assms
  by (cases p)
    (auto simp: holds_gate_def then_exec_def Mutex_Lock_def Mutex_Unlock_def
      held_getUserLock_body split: if_splits prod.splits)

lemma step_outside_gate:
  assumes "goroutine_step m p key = Done (m', p')" and "\<not> holds_gate p" and "\<not> holds_gate p'"
  shows "m' = m"
  using assms
  by (cases p) (auto simp: holds_gate_def then_exec_def split: if_splits exec.splits)

lemma sched_step_gate_invariant:
  assumes inv: "gate_invariant c" and st: "sched_step c x = Done c'"
  shows "gate_invariant c'"
proof -
  obtain g key where x: "x = (g, key)" by (cases x)
  from st x obtain m' p' where gs: "goroutine_step (mem c) (pcs c g) key = Done (m', p')"
    and c': "c' = \<lparr>mem = m', pcs = (pcs c)(g := p')\<rparr>"
    by (auto simp: sched_step_def then_exec_def split: exec.splits)
  from inv have uniq: "\<And>a b. holds_gate (pcs c a) \<Longrightarrow> holds_gate (pcs c b) \<Longrightarrow> a = b"
    and heldI: "\<And>a. holds_gate (pcs c a) \<Longrightarrow> held (mem c) IamWrite"
    by (auto simp: gate_invariant_def)
  have other: "\<not> holds_gate (pcs c a)" if "holds_gate p'" and "a \<noteq> g" for a
  proof
    assume a: "holds_gate (pcs c a)"
    then have "\<not> holds_gate (pcs c g)" using uniq that(2) by blast
    from step_takes_gate [OF gs this that(1)] heldI [OF a] show False by simp
  qed
  have 1: "a = b" if "holds_gate (pcs c' a)" and "holds_gate (pcs c' b)" for a b
    using that uniq other by (auto simp: c' split: if_splits)
  have 2: "held (mem c') IamWrite" if "holds_gate (pcs c' a)" for a
  proof (cases "a = g")
    case True
    with that have p': "holds_gate p'" by (simp add: c')
    show ?thesis
    proof (cases "holds_gate (pcs c g)")
      case True
      from step_keeps_gate [OF gs True p'] heldI [OF True] show ?thesis by (simp add: c')
    next
      case False
      from step_takes_gate [OF gs False p'] show ?thesis by (simp add: c')
    qed
  next
    case False
    with that have a: "holds_gate (pcs c a)" by (simp add: c')
    then have ng: "\<not> holds_gate (pcs c g)" using uniq False by blast
    have np: "\<not> holds_gate p'" using other a False by blast
    from step_outside_gate [OF gs ng np] heldI [OF a] show ?thesis by (simp add: c')
  qed
  from 1 2 show ?thesis unfolding gate_invariant_def by blast
qed

lemma run_gate_invariant:
  "gate_invariant c \<Longrightarrow> run c sched = Done c' \<Longrightarrow> gate_invariant c'"
proof (induction sched arbitrary: c)
  case Nil
  then show ?case by simp
next
  case (Cons x xs)
  from Cons.prems(2) obtain c1 where 1: "sched_step c x = Done c1" and 2: "run c1 xs = Done c'"
    by (auto simp: then_exec_def split: exec.splits)
  from Cons.IH [OF sched_step_gate_invariant [OF Cons.prems(1) 1] 2] show ?case .
qed

lemma initial_gate_invariant: "initial c \<Longrightarrow> gate_invariant c"
  by (simp add: initial_def gate_invariant_def holds_gate_def)

text \<open>
  C9. Start with every goroutine outside \<^verbatim>\<open>withUserLock\<close> and the write gate free.
  However the goroutines are scheduled, and whatever keys they call with, no two of them
  are inside their wrapped functions at the same time; so no two calls with the same
  key are.
\<close>

theorem withUserLock_mutual_exclusion:
  assumes "initial c0" and "run c0 sched = Done c"
    and "in_body (pcs c g)" and "in_body (pcs c g')"
  shows "g = g'"
proof -
  from run_gate_invariant [OF initial_gate_invariant [OF assms(1)] assms(2)]
  have "gate_invariant c" .
  moreover from assms(3,4) have "holds_gate (pcs c g)" "holds_gate (pcs c g')"
    by (auto simp: in_body_def holds_gate_def split: pc.splits)
  ultimately show ?thesis by (auto simp: gate_invariant_def)
qed

theorem withUserLock_mutual_exclusion_witness:
  "initial start_config \<and>
   (\<exists>c. run start_config
           [(0, ''alice''), (1, ''alice''), (0, ''''), (0, ''''), (0, ''''), (0, ''''), (0, '''')] =
           Done c \<and>
         pcs c 0 = InBody ''alice'' 0 \<and> pcs c 1 = AtGateLock ''alice'' \<and>
         in_body (pcs c 0) \<and> \<not> in_body (pcs c 1)) \<and>
   run start_config
     [(0, ''alice''), (1, ''alice''), (0, ''''), (0, ''''), (0, ''''), (0, ''''), (0, ''''),
      (1, '''')] = Blocked"
proof -
  have i: "initial start_config"
    by (simp add: initial_def start_config_def new_providerData_def held.simps)
  obtain c where r: "run start_config
      [(0, ''alice''), (1, ''alice''), (0, ''''), (0, ''''), (0, ''''), (0, ''''), (0, '''')] =
      Done c"
    and p: "pcs c 0 = InBody ''alice'' 0" "pcs c 1 = AtGateLock ''alice''"
    by (simp add: start_config_def new_providerData_def sched_step_def then_exec_def
        Mutex_Lock_def Mutex_Unlock_def getUserLock_body_def held.simps set_held.simps)
  have b: "in_body (pcs c 0)"
    by (simp add: p in_body_def)
  have "\<not> in_body (pcs c 1)"
  proof
    assume "in_body (pcs c 1)"
    from withUserLock_mutual_exclusion [OF i r b this] show False by simp
  qed
  moreover have "run start_config
     [(0, ''alice''), (1, ''alice''), (0, ''''), (0, ''''), (0, ''''), (0, ''''), (0, ''''),
      (1, '''')] = Blocked"
    by (simp add: start_config_def new_providerData_def sched_step_def then_exec_def
        Mutex_Lock_def Mutex_Unlock_def getUserLock_body_def held.simps set_held.simps)
  ultimately show ?thesis using i r p b by simp
qed

end
